theory Spec2Isabelle
  imports Main
begin

section \<open>JavaScript values\<close>

text \<open>
  The service is TypeScript running on JavaScript values. A value that may be
  \<^verbatim>\<open>null\<close> or \<^verbatim>\<open>undefined\<close> is an option; the source tests
  presence by truthiness (\<^verbatim>\<open>if (refreshToken)\<close>, \<^verbatim>\<open>!this.accessToken\<close>,
  \<^verbatim>\<open>a || b\<close>), under which the empty string and the number zero count as
  absent as well. Numbers are integers here: the service only passes them on,
  tests them for truthiness and adds them to the clock.
\<close>

definition truthy :: "string option \<Rightarrow> bool" where
  "truthy v = (case v of None \<Rightarrow> False | Some s \<Rightarrow> s \<noteq> [])"

definition truthy_num :: "int option \<Rightarrow> bool" where
  "truthy_num v = (case v of None \<Rightarrow> False | Some n \<Rightarrow> n \<noteq> 0)"

text \<open>\<^verbatim>\<open>a || b\<close> on strings, on numbers, and on objects or arrays (truthy whenever present).\<close>

definition js_or :: "string option \<Rightarrow> string option \<Rightarrow> string option" where
  "js_or a b = (if truthy a then a else b)"

definition num_or :: "int option \<Rightarrow> int option \<Rightarrow> int option" where
  "num_or a b = (if truthy_num a then a else b)"

definition obj_or :: "'a option \<Rightarrow> 'a option \<Rightarrow> 'a option" where
  "obj_or a b = (case a of Some x \<Rightarrow> Some x | None \<Rightarrow> b)"

text \<open>\<^verbatim>\<open>a || 'literal'\<close> and \<^verbatim>\<open>a || 400\<close>, where the right operand is never absent.\<close>

definition or_default :: "string option \<Rightarrow> string \<Rightarrow> string" where
  "or_default a d = (case a of None \<Rightarrow> d | Some s \<Rightarrow> if s \<noteq> [] then s else d)"

definition num_or_default :: "int option \<Rightarrow> int \<Rightarrow> int" where
  "num_or_default a d = (case a of None \<Rightarrow> d | Some n \<Rightarrow> if n \<noteq> 0 then n else d)"

text \<open>A template literal prints an absent value as \<^verbatim>\<open>undefined\<close>.\<close>

definition interpolate :: "string option \<Rightarrow> string" where
  "interpolate v = (case v of None \<Rightarrow> ''undefined'' | Some s \<Rightarrow> s)"

text \<open>\<^verbatim>\<open>toLowerCase\<close>, on the ASCII letters.\<close>

definition lower_char :: "char \<Rightarrow> char" where
  "lower_char c =
     (let n = (of_char c :: nat) in if 65 \<le> n \<and> n \<le> 90 then char_of (n + 32) else c)"

definition toLowerCase :: "string \<Rightarrow> string" where
  "toLowerCase s = map lower_char s"

text \<open>
  A number in a template literal. An integer below \<open>10\<^sup>2\<^sup>1\<close> in magnitude is
  printed with all its decimal digits; from there on JavaScript prints exponent
  notation, which is left to the platform (the first argument).
\<close>

fun nat_digits :: "nat \<Rightarrow> string" where
  "nat_digits n =
     (if n < 10 then [char_of (48 + n)]
      else nat_digits (n div 10) @ [char_of (48 + n mod 10)])"

declare nat_digits.simps [simp del]

definition show_int :: "(int \<Rightarrow> string) \<Rightarrow> int \<Rightarrow> string" where
  "show_int exponential i =
     (if \<bar>i\<bar> < 10 ^ 21
      then (if i < 0 then CHR ''-'' # nat_digits (nat (- i)) else nat_digits (nat i))
      else exponential i)"

section \<open>Dates\<close>

text \<open>
  A JavaScript \<^verbatim>\<open>Date\<close>: a time value in milliseconds, or the invalid date that
  \<^verbatim>\<open>new Date(t)\<close> gives once \<open>t\<close> leaves the range of 8.64e15 milliseconds
  around the epoch. Comparing an invalid date is false.
\<close>

datatype js_date = Date int | InvalidDate

definition new_Date :: "int \<Rightarrow> js_date" where
  "new_Date t = (if \<bar>t\<bar> \<le> 8640000000000000 then Date t else InvalidDate)"

fun at_or_before :: "js_date \<Rightarrow> int \<Rightarrow> bool" where
  "at_or_before (Date t) limit = (t \<le> limit)"
| "at_or_before InvalidDate limit = False"

section \<open>Upstream data\<close>

text \<open>
  The token endpoint's JSON (\<^verbatim>\<open>QuickBooksTokenResponse\<close>); every field may be
  missing from what the vendor sends.
\<close>

record token_response =
  access_token :: "string option"
  refresh_token :: "string option"
  expires_in :: "int option"
  token_type :: "string option"
  tr_realmId :: "string option"

text \<open>
  A row of a query response, with the fields the service reads. \<open>row_Count\<close> is
  the number \<^verbatim>\<open>parseInt(row.Count)\<close> gives, \<open>None\<close> when that is \<^verbatim>\<open>NaN\<close>.
\<close>

record row =
  row_Id :: "string option"
  row_Name :: "string option"
  row_Type :: "string option"
  row_Count :: "int option"

record query_response =
  qr_rows :: "string \<rightharpoonup> row list"
  qr_totalCount :: "int option"

record response_data =
  QueryResponse :: "query_response option"
  Item :: "row option"
  Account :: "row option"

text \<open>The vendor's fault envelope, in either key convention.\<close>

record error_detail =
  Detail :: "string option"
  detail :: "string option"
  Message :: "string option"
  message :: "string option"
  code :: "string option"

record fault_obj =
  Error :: "error_detail list option"
  error :: "error_detail list option"

record error_data =
  Fault :: "fault_obj option"
  fault :: "fault_obj option"

text \<open>
  What axios rejects with: \<^verbatim>\<open>error.response\<close> (its status and data) when the
  server answered, and \<^verbatim>\<open>error.status\<close>.
\<close>

record axios_error =
  response :: "(int option \<times> error_data option) option"
  status :: "int option"

section \<open>Request bodies\<close>

record account_ref =
  ref_value :: "string option"
  ref_name :: "string option"

record account_data =
  acc_Name :: string
  AccountType :: string
  Active :: bool
  AccountSubType :: "string option"

record item_data =
  Name :: string
  Type :: string
  UnitPrice :: "int option"
  Description :: "string option"
  Sku :: "string option"
  IncomeAccountRef :: "account_ref option"
  ExpenseAccountRef :: "account_ref option"
  AssetAccountRef :: "account_ref option"
  QtyOnHand :: "int option"
  InvStartDate :: "string option"

record item_body =
  body_Name :: string
  body_Type :: string
  body_UnitPrice :: "int option"
  body_Description :: "string option"
  body_Sku :: "string option"
  body_IncomeAccountRef :: "account_ref option"
  body_ExpenseAccountRef :: "account_ref option"
  body_AssetAccountRef :: "account_ref option"
  body_TrackQtyOnHand :: "bool option"
  body_QtyOnHand :: "int option"
  body_InvStartDate :: "string option"

datatype payload = AccountData account_data | ItemBody item_body

section \<open>The service state\<close>

datatype http_method = GET | POST

text \<open>
  A resource request through the axios instance: method, url, the \<^verbatim>\<open>params\<close> of
  the config, the body, and the bearer token the request interceptor attached.
\<close>

datatype request =
  Request http_method string "(string \<times> string) list" "payload option" "string option"

text \<open>
  What the service has sent upstream: a refresh grant posted to the token endpoint
  (with the refresh token sent), or a resource request.
\<close>

datatype event = TokenRefresh string | ApiRequest request

text \<open>
  The private fields of \<^verbatim>\<open>QuickbooksService\<close>, together with the two things
  of the outside world its methods read and write: \<^verbatim>\<open>Date.now()\<close> in
  milliseconds and the requests sent so far. \<^verbatim>\<open>Date.now()\<close> is the present, a
  time value from which five minutes on is a time value too.
\<close>

record service =
  accessToken :: "string option"
  refreshToken :: "string option"
  realmId :: "string option"
  tokenExpiresAt :: "js_date option"
  clock :: int
  sent :: "event list"

section \<open>The upstream\<close>

datatype token_outcome = TokenOk "token_response option" | TokenFail "int option"

datatype api_outcome = ApiOk "response_data option" | ApiErr axios_error

text \<open>
  The vendor, as the service sees it: what the token endpoint answers to a refresh
  grant (a body, or a failure with the HTTP status if there was an answer), what the
  resource API answers to a request, both possibly depending on everything sent
  before; how many milliseconds the call sent last took; and two things of the
  platform, \<^verbatim>\<open>toISOString().split('T')[0]\<close> of a time value and the exponent
  notation of a large number.
\<close>

record upstream =
  token_endpoint :: "event list \<Rightarrow> string \<Rightarrow> token_outcome"
  api :: "event list \<Rightarrow> request \<Rightarrow> api_outcome"
  elapsed :: "event list \<Rightarrow> nat"
  isoDate :: "int \<Rightarrow> string"
  exponential :: "int \<Rightarrow> string"

definition await :: "upstream \<Rightarrow> event \<Rightarrow> service \<Rightarrow> service" where
  "await up e this =
     (let h = sent this @ [e] in this\<lparr>clock := clock this + int (elapsed up h), sent := h\<rparr>)"

text \<open>\<^verbatim>\<open>axios.post(tokenUrl, {grant_type: 'refresh_token', refresh_token})\<close>\<close>

definition post_token :: "upstream \<Rightarrow> string \<Rightarrow> service \<Rightarrow> token_outcome \<times> service" where
  "post_token up rt this = (token_endpoint up (sent this) rt, await up (TokenRefresh rt) this)"

text \<open>
  \<^verbatim>\<open>axiosInstance.get(url, config)\<close> and \<^verbatim>\<open>axiosInstance.post(url, data, config)\<close>;
  the interceptor adds the bearer header when \<^verbatim>\<open>this.accessToken\<close> is truthy.
\<close>

definition axios_call ::
  "upstream \<Rightarrow> http_method \<Rightarrow> string \<Rightarrow> payload option \<Rightarrow> (string \<times> string) list \<Rightarrow> service
     \<Rightarrow> api_outcome \<times> service" where
  "axios_call up m url body params this =
     (let req = Request m url params (case m of GET \<Rightarrow> None | POST \<Rightarrow> body)
                  (if truthy (accessToken this) then accessToken this else None)
      in (api up (sent this) req, await up (ApiRequest req) this))"

section \<open>Errors\<close>

text \<open>
  \<^verbatim>\<open>originalError\<close> of a translated fault is the response body, or \<^verbatim>\<open>{}\<close>
  when there was no response.
\<close>

datatype original = OrigData error_data | OrigEmpty

record existing_item =
  ex_Id :: "string option"
  ex_Name :: "string option"
  ex_Type :: "string option"

record exn_object =
  exn_message :: string
  exn_code :: "string option"
  exn_detail :: "string option"
  exn_existingItem :: "existing_item option"
  exn_hint :: "string option"
  exn_originalError :: "original option"

datatype exn_response = Text string | Object exn_object

text \<open>What a method throws: a Nest \<^verbatim>\<open>HttpException(response, status)\<close> or a \<^verbatim>\<open>TypeError\<close>.\<close>

datatype exn = HttpException exn_response int | TypeError

text \<open>\<^verbatim>\<open>error.status\<close> of a caught exception.\<close>

definition exn_status :: "exn \<Rightarrow> int option" where
  "exn_status e = (case e of HttpException _ s \<Rightarrow> Some s | TypeError \<Rightarrow> None)"

definition plain :: "string \<Rightarrow> exn_object" where
  "plain m = \<lparr>exn_message = m, exn_code = None, exn_detail = None, exn_existingItem = None,
              exn_hint = None, exn_originalError = None\<rparr>"

section \<open>Token lifecycle\<close>

text \<open>\<^verbatim>\<open>setAccessToken(accessToken, realmId, refreshToken?, expiresIn?)\<close>\<close>

definition setAccessToken ::
  "string option \<Rightarrow> string option \<Rightarrow> string option \<Rightarrow> int option \<Rightarrow> service \<Rightarrow> service" where
  "setAccessToken a r rt expiresIn this =
     (let s1 = this\<lparr>accessToken := a, realmId := r\<rparr>;
          s2 = (if truthy rt then s1\<lparr>refreshToken := rt\<rparr> else s1)
      in (case expiresIn of
            None \<Rightarrow> s2
          | Some n \<Rightarrow>
              if n \<noteq> 0 then s2\<lparr>tokenExpiresAt := Some (new_Date (clock s2 + n * 1000))\<rparr>
              else s2))"

text \<open>\<^verbatim>\<open>isTokenExpired()\<close>: five minutes are \<open>5 * 60 * 1000\<close> milliseconds.\<close>

definition isTokenExpired :: "service \<Rightarrow> bool" where
  "isTokenExpired this =
     (if \<not> truthy (accessToken this) \<and> truthy (refreshToken this) then True
      else (case tokenExpiresAt this of
              None \<Rightarrow> False
            | Some d \<Rightarrow> at_or_before d (clock this + 5 * 60 * 1000)))"

text \<open>
  \<^verbatim>\<open>refreshAccessToken(refreshToken)\<close>. Everything thrown inside its \<^verbatim>\<open>try\<close>, a
  rejected post as well as a body that cannot be read, leaves as the same
  \<^verbatim>\<open>HttpException('Failed to refresh access token', 400)\<close>.
\<close>

definition refresh_failed :: exn where
  "refresh_failed = HttpException (Text ''Failed to refresh access token'') 400"

definition refreshAccessToken ::
  "upstream \<Rightarrow> string \<Rightarrow> service \<Rightarrow> (exn + token_response) \<times> service" where
  "refreshAccessToken up rt this =
     (case post_token up rt this of
        (TokenFail st, w) \<Rightarrow> (Inl refresh_failed, w)
      | (TokenOk None, w) \<Rightarrow> (Inl refresh_failed, w)
      | (TokenOk (Some tokenData), w) \<Rightarrow>
          (let newRefreshToken = js_or (refresh_token tokenData) (Some rt);
               w' = setAccessToken (access_token tokenData)
                      (js_or (js_or (tr_realmId tokenData) (realmId w)) (Some []))
                      newRefreshToken (expires_in tokenData) w
           in (Inr \<lparr>access_token = access_token tokenData,
                     refresh_token = newRefreshToken,
                     expires_in = expires_in tokenData,
                     token_type = token_type tokenData,
                     tr_realmId = js_or (js_or (tr_realmId tokenData) (realmId w')) (Some [])\<rparr>,
               w')))"

text \<open>\<^verbatim>\<open>ensureValidToken()\<close>\<close>

definition reauth_required :: exn where
  "reauth_required =
     HttpException
       (Text ''Refresh token expired or invalid. Please re-authenticate to get a new refresh token.'')
       401"

definition ensureValidToken :: "upstream \<Rightarrow> service \<Rightarrow> (exn + unit) \<times> service" where
  "ensureValidToken up this =
     (case refreshToken this of
        None \<Rightarrow> (Inr (), this)
      | Some rt \<Rightarrow>
          if rt = [] then (Inr (), this)
          else if isTokenExpired this then
            (case refreshAccessToken up rt this of
               (Inr tokenResponse, w) \<Rightarrow>
                 (Inr (), setAccessToken (access_token tokenResponse) (tr_realmId tokenResponse)
                            (refresh_token tokenResponse) (expires_in tokenResponse) w)
             | (Inl e, w) \<Rightarrow>
                 if exn_status e = Some 401 \<or> exn_status e = Some 400
                 then (Inl reauth_required, w)
                 else (Inl e, w))
          else (Inr (), this))"

section \<open>The authenticated call\<close>

definition response_status :: "axios_error \<Rightarrow> int option" where
  "response_status err = (case response err of None \<Rightarrow> None | Some (st, d) \<Rightarrow> st)"

definition response_body :: "axios_error \<Rightarrow> error_data option" where
  "response_body err = (case response err of None \<Rightarrow> None | Some (st, d) \<Rightarrow> d)"

text \<open>\<^verbatim>\<open>list?.[0]\<close>\<close>

definition first_detail :: "error_detail list option \<Rightarrow> error_detail option" where
  "first_detail l = (case l of Some (x # xs) \<Rightarrow> Some x | _ \<Rightarrow> None)"

text \<open>\<^verbatim>\<open>errorDetail?.f\<close>\<close>

definition field :: "error_detail option \<Rightarrow> (error_detail \<Rightarrow> string option) \<Rightarrow> string option" where
  "field d f = (case d of None \<Rightarrow> None | Some x \<Rightarrow> f x)"

text \<open>
  \<^verbatim>\<open>QuickBooksHelper.handleApiError(error, context)\<close>: the exception it throws.
  \<^verbatim>\<open>responseData\<close> is \<^verbatim>\<open>error.response?.data || error.response || {}\<close>, and
  the first thing done with it is \<^verbatim>\<open>JSON.stringify\<close> for the log. When there is
  a response without a body, what is printed is the axios response object itself,
  which holds the request and is circular: \<^verbatim>\<open>JSON.stringify\<close> throws a
  \<^verbatim>\<open>TypeError\<close>, and no \<^verbatim>\<open>HttpException\<close> is built. Otherwise the function
  goes on to \<open>translated_fault\<close>.
\<close>

definition translated_fault :: "axios_error \<Rightarrow> string \<Rightarrow> original \<Rightarrow> exn" where
  "translated_fault err ctx responseData =
     (let flt = (case response_body err of None \<Rightarrow> None | Some d \<Rightarrow> obj_or (Fault d) (fault d));
          errorList = (case flt of None \<Rightarrow> None | Some f \<Rightarrow> obj_or (Error f) (error f));
          errorDetail = first_detail errorList;
          errorMessage =
            or_default
              (js_or (js_or (js_or (field errorDetail Detail) (field errorDetail detail))
                        (field errorDetail Message)) (field errorDetail message))
              (''Failed to '' @ toLowerCase ctx);
          statusCode = num_or_default (num_or (response_status err) (status err)) 400
      in HttpException
           (Object \<lparr>exn_message = errorMessage,
                    exn_code = field errorDetail code,
                    exn_detail = js_or (field errorDetail Detail) (field errorDetail detail),
                    exn_existingItem = None,
                    exn_hint = None,
                    exn_originalError = Some responseData\<rparr>)
           statusCode)"

definition handleApiError :: "axios_error \<Rightarrow> string \<Rightarrow> exn" where
  "handleApiError err ctx =
     (case response err of
        None \<Rightarrow> translated_fault err ctx OrigEmpty
      | Some (st, None) \<Rightarrow> TypeError
      | Some (st, Some d) \<Rightarrow> translated_fault err ctx (OrigData d))"

text \<open>The test \<^verbatim>\<open>isAuthError\<close> in the \<^verbatim>\<open>catch\<close> of \<^verbatim>\<open>makeRequest\<close>.\<close>

definition isAuthError :: "axios_error \<Rightarrow> bool" where
  "isAuthError err =
     (let statusCode = num_or (response_status err) (status err);
          upper = (case response_body err of
                     None \<Rightarrow> None
                   | Some d \<Rightarrow> (case Fault d of
                                 None \<Rightarrow> None
                               | Some f \<Rightarrow> field (first_detail (Error f)) code));
          lower = (case response_body err of
                     None \<Rightarrow> None
                   | Some d \<Rightarrow> (case fault d of
                                 None \<Rightarrow> None
                               | Some f \<Rightarrow> field (first_detail (error f)) code))
      in statusCode = Some 401 \<or> upper = Some ''3200'' \<or> lower = Some ''3200'')"

definition method_name :: "http_method \<Rightarrow> string" where
  "method_name m = (case m of GET \<Rightarrow> ''GET'' | POST \<Rightarrow> ''POST'')"

text \<open>
  \<^verbatim>\<open>makeRequest(method, url, data?, config?, isRetry = false)\<close>. The inner
  \<^verbatim>\<open>try\<close> holds the refresh and the retried call (\<^verbatim>\<open>return await\<close>), so its
  \<^verbatim>\<open>catch\<close> receives what either of them throws.
\<close>

function makeRequest ::
  "upstream \<Rightarrow> http_method \<Rightarrow> string \<Rightarrow> payload option \<Rightarrow> (string \<times> string) list \<Rightarrow> bool
     \<Rightarrow> service \<Rightarrow> (exn + response_data option) \<times> service" where
  "makeRequest up m url body params isRetry this =
     (case ensureValidToken up this of
        (Inl e, w) \<Rightarrow> (Inl e, w)
      | (Inr u, w) \<Rightarrow>
          (case axios_call up m url body params w of
             (ApiOk r, w1) \<Rightarrow> (Inr r, w1)
           | (ApiErr err, w1) \<Rightarrow>
               if isAuthError err \<and> \<not> isRetry \<and> truthy (refreshToken w1) then
                 (case refreshAccessToken up (the (refreshToken w1)) w1 of
                    (Inl refreshError, w2) \<Rightarrow>
                      (Inl (handleApiError err ''API Request (after failed refresh)''), w2)
                  | (Inr t, w2) \<Rightarrow>
                      (case makeRequest up m url body params True w2 of
                         (Inr r, w3) \<Rightarrow> (Inr r, w3)
                       | (Inl refreshError, w3) \<Rightarrow>
                           (Inl (handleApiError err ''API Request (after failed refresh)''), w3)))
               else (Inl (handleApiError err (''API Request '' @ method_name m @ '' '' @ url)), w1)))"
  by pat_completeness auto
termination
  by (relation "measure (\<lambda>(up, m, url, body, params, isRetry, this). if isRetry then 0 else 1)") auto

declare makeRequest.simps [simp del]

section \<open>Queries\<close>

text \<open>\<^verbatim>\<open>QuickBooksHelper.formatQuery\<close>, \<^verbatim>\<open>formatCountQuery\<close> and \<^verbatim>\<open>escapeQueryValue\<close>\<close>

definition where_clause :: "string option \<Rightarrow> string" where
  "where_clause wh = (case wh of None \<Rightarrow> [] | Some c \<Rightarrow> if c \<noteq> [] then '' WHERE '' @ c else [])"

definition formatQuery ::
  "upstream \<Rightarrow> string \<Rightarrow> int \<Rightarrow> int \<Rightarrow> string option \<Rightarrow> string" where
  "formatQuery up entity maxResults startPosition wh =
     ''SELECT * FROM '' @ entity @ where_clause wh @
     '' MAXRESULTS '' @ show_int (exponential up) maxResults @
     '' STARTPOSITION '' @ show_int (exponential up) startPosition"

definition formatCountQuery :: "string \<Rightarrow> string option \<Rightarrow> string" where
  "formatCountQuery entity wh = ''SELECT COUNT(*) FROM '' @ entity @ where_clause wh"

definition quote :: char where
  "quote = CHR 0x27"

definition escapeQueryValue :: "string \<Rightarrow> string" where
  "escapeQueryValue v = concat (map (\<lambda>c. if c = quote then [quote, quote] else [c]) v)"

text \<open>\<^verbatim>\<open>`/v3/company/${this.realmId}/query`\<close>\<close>

definition company_url :: "service \<Rightarrow> string \<Rightarrow> string" where
  "company_url this suffix = ''/v3/company/'' @ interpolate (realmId this) @ suffix"

record paginated =
  totalCount :: int
  startPosition :: int
  maxResults :: int
  items :: "row list"

text \<open>
  The total that \<^verbatim>\<open>executeQuery\<close> reads from the count response inside its
  \<^verbatim>\<open>try\<close>; a body that cannot be read throws there and is caught like a failed
  request.
\<close>

definition count_of :: "string \<Rightarrow> row list \<Rightarrow> response_data option \<Rightarrow> int" where
  "count_of entity its countResponse =
     (case countResponse of
        None \<Rightarrow> int (length its)
      | Some d \<Rightarrow>
          (case QueryResponse d of
             None \<Rightarrow> int (length its)
           | Some countData \<Rightarrow>
               (case qr_totalCount countData of
                  Some n \<Rightarrow> n
                | None \<Rightarrow>
                    (case qr_rows countData entity of
                       Some (r # rs) \<Rightarrow> num_or_default (row_Count r) (int (length its))
                     | _ \<Rightarrow> int (length its)))))"

text \<open>\<^verbatim>\<open>executeQuery<T>(entity, maxResults, startPosition, where?)\<close>\<close>

definition executeQuery ::
  "upstream \<Rightarrow> string \<Rightarrow> int \<Rightarrow> int \<Rightarrow> string option \<Rightarrow> service \<Rightarrow> (exn + paginated) \<times> service" where
  "executeQuery up entity maxRes startPos wh this =
     (case makeRequest up GET (company_url this ''/query'') None
             [(''query'', formatQuery up entity maxRes startPos wh)] False this of
        (Inl e, w) \<Rightarrow> (Inl e, w)
      | (Inr None, w) \<Rightarrow> (Inl TypeError, w)
      | (Inr (Some d), w) \<Rightarrow>
          (case QueryResponse d of
             None \<Rightarrow> (Inl TypeError, w)
           | Some queryResponse \<Rightarrow>
               (let its = (case qr_rows queryResponse entity of Some xs \<Rightarrow> xs | None \<Rightarrow> [])
                in (case makeRequest up GET (company_url w ''/query'') None
                          [(''query'', formatCountQuery entity wh)] False w of
                      (Inl e, w1) \<Rightarrow>
                        (Inr \<lparr>totalCount = int (length its), startPosition = startPos,
                              maxResults = maxRes, items = its\<rparr>, w1)
                    | (Inr countResponse, w1) \<Rightarrow>
                        (Inr \<lparr>totalCount = count_of entity its countResponse,
                              startPosition = startPos, maxResults = maxRes, items = its\<rparr>,
                         w1)))))"

text \<open>
  The list operations; three of them return the page with the rows once more under
  the entity's name.
\<close>

definition with_alias :: "(exn + paginated) \<times> service \<Rightarrow> (exn + paginated \<times> row list) \<times> service" where
  "with_alias res =
     (case res of (Inl e, w) \<Rightarrow> (Inl e, w) | (Inr result, w) \<Rightarrow> (Inr (result, items result), w))"

definition getAccounts ::
  "upstream \<Rightarrow> int \<Rightarrow> int \<Rightarrow> service \<Rightarrow> (exn + paginated \<times> row list) \<times> service" where
  "getAccounts up maxRes startPos this =
     with_alias (executeQuery up ''Account'' maxRes startPos None this)"

definition getCustomers ::
  "upstream \<Rightarrow> int \<Rightarrow> int \<Rightarrow> service \<Rightarrow> (exn + paginated \<times> row list) \<times> service" where
  "getCustomers up maxRes startPos this =
     with_alias (executeQuery up ''Customer'' maxRes startPos None this)"

definition getInvoices ::
  "upstream \<Rightarrow> int \<Rightarrow> int \<Rightarrow> service \<Rightarrow> (exn + paginated \<times> row list) \<times> service" where
  "getInvoices up maxRes startPos this =
     with_alias (executeQuery up ''Invoice'' maxRes startPos None this)"

definition getItems :: "upstream \<Rightarrow> int \<Rightarrow> int \<Rightarrow> service \<Rightarrow> (exn + paginated) \<times> service" where
  "getItems up maxRes startPos this = executeQuery up ''Item'' maxRes startPos None this"

text \<open>
  The query-by-id operations. The three bodies differ in the entity's name only;
  \<open>first_or_not_found\<close> is what each does with the page it gets.
\<close>

definition id_clause :: "string \<Rightarrow> string" where
  "id_clause v = ''Id = '' @ [quote] @ escapeQueryValue v @ [quote]"

definition first_or_not_found ::
  "string \<Rightarrow> string \<Rightarrow> (exn + paginated) \<times> service \<Rightarrow> (exn + row) \<times> service" where
  "first_or_not_found label v res =
     (case res of
        (Inl e, w) \<Rightarrow> (Inl e, w)
      | (Inr result, w) \<Rightarrow>
          (case items result of
             [] \<Rightarrow> (Inl (HttpException (Text (label @ '' with ID '' @ v @ '' not found'')) 404), w)
           | x # xs \<Rightarrow> (Inr x, w)))"

definition getCustomerById :: "upstream \<Rightarrow> string \<Rightarrow> service \<Rightarrow> (exn + row) \<times> service" where
  "getCustomerById up customerId this =
     first_or_not_found ''Customer'' customerId
       (executeQuery up ''Customer'' 1 1 (Some (id_clause customerId)) this)"

definition getInvoiceById :: "upstream \<Rightarrow> string \<Rightarrow> service \<Rightarrow> (exn + row) \<times> service" where
  "getInvoiceById up invoiceId this =
     first_or_not_found ''Invoice'' invoiceId
       (executeQuery up ''Invoice'' 1 1 (Some (id_clause invoiceId)) this)"

definition getItemById :: "upstream \<Rightarrow> string \<Rightarrow> service \<Rightarrow> (exn + row) \<times> service" where
  "getItemById up itemId this =
     first_or_not_found ''Item'' itemId
       (executeQuery up ''Item'' 1 1 (Some (id_clause itemId)) this)"

text \<open>\<^verbatim>\<open>findItemByName(itemName)\<close>\<close>

definition name_clause :: "string \<Rightarrow> string" where
  "name_clause v =
     ''Name = '' @ [quote] @ escapeQueryValue v @ [quote] @ '' AND Active IN (true, false)''"

definition findItemByName :: "upstream \<Rightarrow> string \<Rightarrow> service \<Rightarrow> (exn + row option) \<times> service" where
  "findItemByName up itemName this =
     (case executeQuery up ''Item'' 1 1 (Some (name_clause itemName)) this of
        (Inl e, w) \<Rightarrow> (Inl e, w)
      | (Inr result, w) \<Rightarrow>
          (case items result of [] \<Rightarrow> (Inr None, w) | x # xs \<Rightarrow> (Inr (Some x), w)))"

section \<open>Items and their accounts\<close>

text \<open>
  \<^verbatim>\<open>findOrCreateAccount(accountName, accountType, accountSubType?)\<close>. Whatever is
  thrown inside its \<^verbatim>\<open>try\<close> is an \<^verbatim>\<open>HttpException\<close> or a \<^verbatim>\<open>TypeError\<close>; neither
  has \<^verbatim>\<open>response.data\<close> or \<^verbatim>\<open>response.status\<close>, so the \<^verbatim>\<open>catch\<close> finds no
  fault detail and throws the same exception with status 400 for all of them.
\<close>

definition find_or_create_failed :: "string \<Rightarrow> exn" where
  "find_or_create_failed accountName =
     HttpException (Object (plain (''Failed to find or create account: '' @ accountName))) 400"

definition realm_not_set :: exn where
  "realm_not_set = HttpException (Text ''Realm ID not set. Please authenticate first.'') 400"

definition findOrCreateAccount ::
  "upstream \<Rightarrow> string \<Rightarrow> string \<Rightarrow> string option \<Rightarrow> service \<Rightarrow> (exn + string option) \<times> service" where
  "findOrCreateAccount up accountName accountType accountSubType this =
     (if \<not> truthy (realmId this) then (Inl realm_not_set, this)
      else
        (case ensureValidToken up this of
           (Inl e, w) \<Rightarrow> (Inl e, w)
         | (Inr u, w) \<Rightarrow>
             (case makeRequest up GET (company_url w ''/query'') None
                     [(''query'', ''SELECT * FROM Account WHERE '' @ name_clause accountName)]
                     False w of
                (Inl e, w1) \<Rightarrow> (Inl (find_or_create_failed accountName), w1)
              | (Inr None, w1) \<Rightarrow> (Inl (find_or_create_failed accountName), w1)
              | (Inr (Some d), w1) \<Rightarrow>
                  (case QueryResponse d of
                     None \<Rightarrow> (Inl (find_or_create_failed accountName), w1)
                   | Some queryResponse \<Rightarrow>
                       (case qr_rows queryResponse ''Account'' of
                          Some (account # rest) \<Rightarrow> (Inr (row_Id account), w1)
                        | _ \<Rightarrow>
                            (case makeRequest up POST (company_url w1 ''/account'')
                                    (Some (AccountData
                                       \<lparr>acc_Name = accountName, AccountType = accountType,
                                        Active = True,
                                        AccountSubType =
                                          (if truthy accountSubType then accountSubType else None)\<rparr>))
                                    [] False w1 of
                               (Inl e, w2) \<Rightarrow> (Inl (find_or_create_failed accountName), w2)
                             | (Inr None, w2) \<Rightarrow> (Inl (find_or_create_failed accountName), w2)
                             | (Inr (Some created), w2) \<Rightarrow>
                                 (case Account created of
                                    None \<Rightarrow> (Inl (find_or_create_failed accountName), w2)
                                  | Some createdAccount \<Rightarrow>
                                      if truthy (row_Id createdAccount)
                                      then (Inr (row_Id createdAccount), w2)
                                      else (Inl (find_or_create_failed accountName), w2))))))))"

text \<open>\<^verbatim>\<open>resolveAccountRef(accountRef, accountType?, accountSubType?)\<close>\<close>

definition account_type_required :: exn where
  "account_type_required =
     HttpException
       (Object ((plain ''Account type is required when providing account name without ID'')
                  \<lparr>exn_hint := Some ''Provide accountType when using account name''\<rparr>))
       400"

definition resolveAccountRef ::
  "upstream \<Rightarrow> account_ref \<Rightarrow> string option \<Rightarrow> string option \<Rightarrow> service
     \<Rightarrow> (exn + account_ref) \<times> service" where
  "resolveAccountRef up accountRef accountType accountSubType this =
     (if truthy (ref_value accountRef)
      then (Inr \<lparr>ref_value = ref_value accountRef, ref_name = ref_name accountRef\<rparr>, this)
      else
        (case ref_name accountRef of
           Some n \<Rightarrow>
             if n \<noteq> [] then
               (case accountType of
                  Some t \<Rightarrow>
                    if t \<noteq> [] then
                      (case findOrCreateAccount up n t accountSubType this of
                         (Inl e, w) \<Rightarrow> (Inl e, w)
                       | (Inr accountId, w) \<Rightarrow>
                           (Inr \<lparr>ref_value = accountId, ref_name = ref_name accountRef\<rparr>, w))
                    else (Inl account_type_required, this)
                | None \<Rightarrow> (Inl account_type_required, this))
             else
               (Inl (HttpException (Text ''Either account value (ID) or name must be provided'') 400),
                this)
         | None \<Rightarrow>
             (Inl (HttpException (Text ''Either account value (ID) or name must be provided'') 400),
              this)))"

text \<open>
  \<^verbatim>\<open>formatItemRequestBody(itemData)\<close>. Its two \<^verbatim>\<open>if\<close> blocks test the type for
  different strings, so at most one of them runs.
\<close>

definition formatItemRequestBody ::
  "upstream \<Rightarrow> item_data \<Rightarrow> service \<Rightarrow> (exn + item_body) \<times> service" where
  "formatItemRequestBody up itemData this =
     (let requestBody =
            \<lparr>body_Name = Name itemData, body_Type = Type itemData,
             body_UnitPrice = UnitPrice itemData,
             body_Description =
               (if truthy (Description itemData) then Description itemData else None),
             body_Sku = (if truthy (Sku itemData) then Sku itemData else None),
             body_IncomeAccountRef = None, body_ExpenseAccountRef = None,
             body_AssetAccountRef = None, body_TrackQtyOnHand = None, body_QtyOnHand = None,
             body_InvStartDate = None\<rparr>
      in if Type itemData = ''Service'' \<or> Type itemData = ''NonInventory'' then
           (case IncomeAccountRef itemData of
              None \<Rightarrow>
                (Inl (HttpException
                        (Text ''IncomeAccountRef is required for Service and NonInventory items'')
                        400), this)
            | Some income \<Rightarrow>
                if \<not> truthy (ref_value income) \<and> \<not> truthy (ref_name income) then
                  (Inl (HttpException
                          (Text ''IncomeAccountRef is required for Service and NonInventory items'')
                          400), this)
                else
                  (case resolveAccountRef up income (Some ''Income'')
                          (Some (if Type itemData = ''Service'' then ''ServiceIncome''
                                 else ''SalesOfProductIncome'')) this of
                     (Inl e, w) \<Rightarrow> (Inl e, w)
                   | (Inr r, w) \<Rightarrow> (Inr (requestBody\<lparr>body_IncomeAccountRef := Some r\<rparr>), w)))
         else if Type itemData = ''Inventory'' then
           (case (IncomeAccountRef itemData, ExpenseAccountRef itemData, AssetAccountRef itemData) of
              (Some income, Some expense, Some asset) \<Rightarrow>
                (case resolveAccountRef up income (Some ''Income'') (Some ''SalesOfProductIncome'')
                        this of
                   (Inl e, w) \<Rightarrow> (Inl e, w)
                 | (Inr ri, w) \<Rightarrow>
                     (case resolveAccountRef up expense (Some ''Cost of Goods Sold'')
                             (Some ''SuppliesMaterialsCogs'') w of
                        (Inl e, w1) \<Rightarrow> (Inl e, w1)
                      | (Inr re, w1) \<Rightarrow>
                          (case resolveAccountRef up asset (Some ''Asset'') (Some ''Inventory'') w1 of
                             (Inl e, w2) \<Rightarrow> (Inl e, w2)
                           | (Inr ra, w2) \<Rightarrow>
                               (Inr (requestBody
                                      \<lparr>body_IncomeAccountRef := Some ri,
                                       body_ExpenseAccountRef := Some re,
                                       body_AssetAccountRef := Some ra,
                                       body_TrackQtyOnHand := Some True,
                                       body_QtyOnHand :=
                                         Some (num_or_default (QtyOnHand itemData) 0),
                                       body_InvStartDate :=
                                         Some (or_default (InvStartDate itemData)
                                                 (isoDate up (clock w2)))\<rparr>), w2))))
            | _ \<Rightarrow>
                (Inl (HttpException
                        (Text ''Income, Expense, and Asset account references are required for Inventory items'')
                        400), this))
         else (Inr requestBody, this))"

text \<open>\<^verbatim>\<open>createItem(itemData)\<close> returns \<^verbatim>\<open>response.data.Item || response.data\<close>.\<close>

datatype created = CreatedItem row | RawData response_data

definition duplicate_item :: "string \<Rightarrow> row \<Rightarrow> exn" where
  "duplicate_item itemName existingItem =
     HttpException
       (Object
          \<lparr>exn_message =
             ''An item with the name '' @ [CHR 0x22] @ itemName @ [CHR 0x22] @ '' already exists'',
           exn_code = Some ''DUPLICATE_ITEM_NAME'',
           exn_detail = None,
           exn_existingItem =
             Some \<lparr>ex_Id = row_Id existingItem, ex_Name = row_Name existingItem,
                   ex_Type = row_Type existingItem\<rparr>,
           exn_hint =
             Some ''Item names must be unique in QuickBooks. Please use a different name or update the existing item.'',
           exn_originalError = None\<rparr>)
       409"

definition createItem :: "upstream \<Rightarrow> item_data \<Rightarrow> service \<Rightarrow> (exn + created) \<times> service" where
  "createItem up itemData this =
     (case findItemByName up (Name itemData) this of
        (Inl e, w) \<Rightarrow> (Inl e, w)
      | (Inr (Some existingItem), w) \<Rightarrow> (Inl (duplicate_item (Name itemData) existingItem), w)
      | (Inr None, w) \<Rightarrow>
          (case formatItemRequestBody up itemData w of
             (Inl e, w1) \<Rightarrow> (Inl e, w1)
           | (Inr requestBody, w1) \<Rightarrow>
               (case makeRequest up POST (company_url w1 ''/item'') (Some (ItemBody requestBody))
                       [] False w1 of
                  (Inl e, w2) \<Rightarrow> (Inl e, w2)
                | (Inr None, w2) \<Rightarrow> (Inl TypeError, w2)
                | (Inr (Some d), w2) \<Rightarrow>
                    (Inr (case Item d of Some it \<Rightarrow> CreatedItem it | None \<Rightarrow> RawData d), w2))))"

section \<open>Observing what was sent\<close>

text \<open>The resource requests among the events, and those of them that write (every POST).\<close>

fun is_api_request :: "event \<Rightarrow> bool" where
  "is_api_request (ApiRequest r) = True"
| "is_api_request (TokenRefresh t) = False"

definition api_log :: "service \<Rightarrow> event list" where
  "api_log s = filter is_api_request (sent s)"

fun is_create :: "event \<Rightarrow> bool" where
  "is_create (ApiRequest (Request m url p b t)) = (m = POST)"
| "is_create (TokenRefresh t) = False"

text \<open>The body that goes out with a request, and a list of attempts at one and the same request.\<close>

definition body_sent :: "http_method \<Rightarrow> payload option \<Rightarrow> payload option" where
  "body_sent m body = (case m of GET \<Rightarrow> None | POST \<Rightarrow> body)"

definition attempts_of ::
  "http_method \<Rightarrow> string \<Rightarrow> (string \<times> string) list \<Rightarrow> payload option \<Rightarrow> event list \<Rightarrow> bool" where
  "attempts_of m url p b rs = (\<forall>e \<in> set rs. \<exists>t. e = ApiRequest (Request m url p (body_sent m b) t))"

text \<open>
  The rows of an entity in a query response, and the rows the upstream returned to a
  query by id (\<open>None\<close> when that query failed or had no readable response).
\<close>

definition rows_of :: "query_response \<Rightarrow> string \<Rightarrow> row list" where
  "rows_of qr entity = (case qr_rows qr entity of Some xs \<Rightarrow> xs | None \<Rightarrow> [])"

definition id_query_rows :: "upstream \<Rightarrow> string \<Rightarrow> string \<Rightarrow> service \<Rightarrow> row list option" where
  "id_query_rows up entity v s =
     (case makeRequest up GET (company_url s ''/query'') None
             [(''query'', formatQuery up entity 1 1 (Some (id_clause v)))] False s of
        (Inr (Some d), w) \<Rightarrow>
          (case QueryResponse d of Some qr \<Rightarrow> Some (rows_of qr entity) | None \<Rightarrow> None)
      | _ \<Rightarrow> None)"

section \<open>Reference definitions and sample data\<close>

text \<open>
  The expiry test as the specification words it: expired when the access token is
  absent while a refresh token is present, or when an expiry is on file that is at
  or before five minutes from now.
\<close>

definition isExpired_spec ::
  "string option \<Rightarrow> string option \<Rightarrow> js_date option \<Rightarrow> int \<Rightarrow> bool" where
  "isExpired_spec access refresh expiry now =
     ((\<not> truthy access \<and> truthy refresh) \<or>
      (case expiry of None \<Rightarrow> False | Some d \<Rightarrow> at_or_before d (now + 300000)))"

text \<open>
  Sample states: a service holding a refresh token and a realm but no access token
  yet; one whose access token ran out; one whose access token is good for another
  hour; one with a token that ran out and no refresh token.
\<close>

definition demo_service :: service where
  "demo_service =
     \<lparr>accessToken = None, refreshToken = Some ''rt-1'', realmId = Some ''4620816365'',
      tokenExpiresAt = None, clock = 1000000, sent = []\<rparr>"

definition stale_service :: service where
  "stale_service =
     \<lparr>accessToken = Some ''at-1'', refreshToken = Some ''rt-1'', realmId = Some ''4620816365'',
      tokenExpiresAt = Some (Date 900000), clock = 1000000, sent = []\<rparr>"

definition fresh_service :: service where
  "fresh_service =
     \<lparr>accessToken = Some ''at-1'', refreshToken = Some ''rt-1'', realmId = Some ''4620816365'',
      tokenExpiresAt = Some (Date 4600000), clock = 1000000, sent = []\<rparr>"

definition no_refresh_service :: service where
  "no_refresh_service =
     \<lparr>accessToken = Some ''at-1'', refreshToken = None, realmId = Some ''4620816365'',
      tokenExpiresAt = Some (Date 900000), clock = 1000000, sent = []\<rparr>"

text \<open>A service started with a refresh token from the environment and no realm id.\<close>

definition unconfigured_service :: service where
  "unconfigured_service =
     \<lparr>accessToken = Some ''at-1'', refreshToken = Some ''rt-1'', realmId = None,
      tokenExpiresAt = Some (Date 900000), clock = 1000000, sent = []\<rparr>"

definition query_url :: string where
  "query_url = ''/v3/company/4620816365/query''"

text \<open>Sample failures: a 401 with the vendor's fault envelope, and a 500 with an empty object as body.\<close>

definition unauthorized :: "string \<Rightarrow> axios_error" where
  "unauthorized msg =
     \<lparr>response =
        Some (Some 401,
              Some \<lparr>Fault = Some \<lparr>Error = Some [\<lparr>Detail = None, detail = None,
                                                   Message = Some msg, message = None,
                                                   code = Some ''3200''\<rparr>],
                                   error = None\<rparr>,
                    fault = None\<rparr>),
      status = None\<rparr>"

definition server_error :: axios_error where
  "server_error =
     \<lparr>response = Some (Some 500, Some \<lparr>Fault = None, fault = None\<rparr>), status = None\<rparr>"

text \<open>Sample rows, a query response and an item to create.\<close>

definition alice :: row where
  "alice = \<lparr>row_Id = Some ''1'', row_Name = Some ''Alice'', row_Type = None, row_Count = None\<rparr>"

definition widget :: row where
  "widget = \<lparr>row_Id = Some ''7'', row_Name = Some ''Widget'', row_Type = Some ''Service'',
             row_Count = None\<rparr>"

definition sample_page :: response_data where
  "sample_page =
     \<lparr>QueryResponse =
        Some \<lparr>qr_rows = [''Customer'' \<mapsto> [alice, alice], ''Item'' \<mapsto> [widget]],
              qr_totalCount = None\<rparr>,
      Item = None, Account = None\<rparr>"

definition widget_data :: item_data where
  "widget_data =
     \<lparr>Name = ''Widget'', Type = ''Service'', UnitPrice = Some 150, Description = None, Sku = None,
      IncomeAccountRef = Some \<lparr>ref_value = Some ''79'', ref_name = None\<rparr>,
      ExpenseAccountRef = None, AssetAccountRef = None, QtyOnHand = None, InvStartDate = None\<rparr>"

text \<open>A token endpoint that answers every refresh grant with HTTP 500.\<close>

definition failing_token_endpoint :: upstream where
  "failing_token_endpoint =
     \<lparr>token_endpoint = (\<lambda>h rt. TokenFail (Some 500)),
      api = (\<lambda>h req. ApiOk None),
      elapsed = (\<lambda>h. 0),
      isoDate = (\<lambda>t. ''1970-01-01''),
      exponential = (\<lambda>i. ''1e+21'')\<rparr>"

text \<open>An upstream that rejects every resource request with 401 and renews tokens on request.\<close>

definition rejecting_upstream :: upstream where
  "rejecting_upstream =
     \<lparr>token_endpoint =
        (\<lambda>h rt. TokenOk (Some \<lparr>access_token = Some ''at-2'', refresh_token = None,
                                expires_in = Some 3600, token_type = Some ''bearer'',
                                tr_realmId = None\<rparr>)),
      api = (\<lambda>h req. if h = [] then ApiErr (unauthorized ''first failure'')
                      else ApiErr (unauthorized ''second failure'')),
      elapsed = (\<lambda>h. 0),
      isoDate = (\<lambda>t. ''1970-01-01''),
      exponential = (\<lambda>i. ''1e+21'')\<rparr>"

text \<open>An upstream whose token endpoint rotates the refresh token and names no realm.\<close>

definition rotating_upstream :: upstream where
  "rotating_upstream =
     \<lparr>token_endpoint =
        (\<lambda>h rt. TokenOk (Some \<lparr>access_token = Some ''at-2'', refresh_token = Some ''rt-2'',
                                expires_in = Some 3600, token_type = Some ''bearer'',
                                tr_realmId = None\<rparr>)),
      api = (\<lambda>h req. ApiOk None),
      elapsed = (\<lambda>h. 0),
      isoDate = (\<lambda>t. ''1970-01-01''),
      exponential = (\<lambda>i. ''1e+21'')\<rparr>"

text \<open>An upstream that gives one answer to the first request and another to every later one.\<close>

definition scripted_upstream :: "api_outcome \<Rightarrow> api_outcome \<Rightarrow> upstream" where
  "scripted_upstream a b =
     \<lparr>token_endpoint = (\<lambda>h rt. TokenFail None),
      api = (\<lambda>h req. if h = [] then a else b),
      elapsed = (\<lambda>h. 0),
      isoDate = (\<lambda>t. ''1970-01-01''),
      exponential = (\<lambda>i. ''1e+21'')\<rparr>"

section \<open>Basic facts\<close>

lemmas run_defs =
  fresh_service_def scripted_upstream_def server_error_def sample_page_def query_url_def
  ensureValidToken_def isTokenExpired_def truthy_def axios_call_def await_def
  isAuthError_def num_or_def truthy_num_def response_status_def response_body_def
  company_url_def interpolate_def method_name_def Let_def

lemma formatQuery_sample:
  "formatQuery up ''Customer'' 20 1 (Some (id_clause (''4'' @ [quote] @ ''2'')))
     = ''SELECT * FROM Customer WHERE Id = '' @ [quote] @ ''4'' @ [quote, quote] @ ''2'' @ [quote]
         @ '' MAXRESULTS 20 STARTPOSITION 1''"
  by code_simp

lemma toLowerCase_sample: "toLowerCase ''API Request GET /v3/Query'' = ''api request get /v3/query''"
  by code_simp

lemma sent_setAccessToken [simp]: "sent (setAccessToken a r rt e s) = sent s"
  by (simp add: setAccessToken_def Let_def split: option.splits)

lemma refreshToken_setAccessToken:
  "refreshToken (setAccessToken a r rt e s) = (if truthy rt then rt else refreshToken s)"
  by (simp add: setAccessToken_def Let_def split: option.splits)

lemma accessToken_setAccessToken [simp]: "accessToken (setAccessToken a r rt e s) = a"
  by (simp add: setAccessToken_def Let_def split: option.splits)

lemma realmId_setAccessToken [simp]: "realmId (setAccessToken a r rt e s) = r"
  by (simp add: setAccessToken_def Let_def split: option.splits)

lemma await_fields [simp]:
  "sent (await up e s) = sent s @ [e]"
  "accessToken (await up e s) = accessToken s"
  "refreshToken (await up e s) = refreshToken s"
  "realmId (await up e s) = realmId s"
  "tokenExpiresAt (await up e s) = tokenExpiresAt s"
  by (simp_all add: await_def Let_def)

lemma refreshAccessToken_failure:
  "fst (refreshAccessToken up rt s) = Inl e \<Longrightarrow> e = refresh_failed"
  by (auto simp: refreshAccessToken_def post_token_def Let_def
           split: token_outcome.splits option.splits)

lemma sent_refreshAccessToken [simp]:
  "sent (snd (refreshAccessToken up rt s)) = sent s @ [TokenRefresh rt]"
  by (simp add: refreshAccessToken_def post_token_def Let_def
           split: token_outcome.splits option.splits)

lemma api_log_setAccessToken [simp]: "api_log (setAccessToken a r rt e s) = api_log s"
  by (simp add: api_log_def)

lemma refreshAccessToken_api_log:
  "refreshAccessToken up rt s = (r, w) \<Longrightarrow> api_log w = api_log s"
  using sent_refreshAccessToken [of up rt s] by (simp add: api_log_def)

lemma ensureValidToken_api_log:
  "ensureValidToken up s = (r, w) \<Longrightarrow> api_log w = api_log s"
  by (auto simp: ensureValidToken_def split: option.splits if_splits prod.splits sum.splits
           dest: refreshAccessToken_api_log)

lemma axios_call_api_log:
  "axios_call up m url b p s = (r, w) \<Longrightarrow>
     api_log w = api_log s @ [ApiRequest (Request m url p (body_sent m b)
                               (if truthy (accessToken s) then accessToken s else None))]"
  by (auto simp: axios_call_def Let_def api_log_def body_sent_def)

section \<open>The expiry test and the credentials\<close>

text \<open>
  The source file holds two revisions of the service class. The model follows the
  later one, which has \<^verbatim>\<open>makeRequest\<close> and \<^verbatim>\<open>executeQuery\<close>; the earlier
  \<^verbatim>\<open>isTokenExpired\<close> lacks the first test on the access token.
\<close>

text \<open>
  C2: \<open>isTokenExpired\<close> is the reference definition: true when the access token
  is absent and a refresh token present, otherwise true exactly when an expiry is on
  file and is at or before now plus five minutes, false without an expiry; an expiry
  of exactly now plus five minutes counts as expired.
\<close>

theorem isTokenExpired_reference:
  "isTokenExpired s = isExpired_spec (accessToken s) (refreshToken s) (tokenExpiresAt s) (clock s)
   \<and> (tokenExpiresAt s = Some (Date (clock s + 5 * 60 * 1000)) \<longrightarrow> isTokenExpired s)"
  by (simp add: isTokenExpired_def isExpired_spec_def split: option.splits)

theorem isTokenExpired_reference_witness:
  "tokenExpiresAt (demo_service\<lparr>accessToken := Some ''tok'', tokenExpiresAt := Some (Date 1300000)\<rparr>)
     = Some (Date (clock demo_service + 5 * 60 * 1000))
   \<and> isTokenExpired (demo_service\<lparr>accessToken := Some ''tok'', tokenExpiresAt := Some (Date 1300000)\<rparr>)"
  using isTokenExpired_reference
          [of "demo_service\<lparr>accessToken := Some ''tok'', tokenExpiresAt := Some (Date 1300000)\<rparr>"]
  by (simp add: demo_service_def isExpired_spec_def truthy_def)

text \<open>
  C3 as stated fails: without an expiry, and with a refresh token but no access
  token, the token counts as expired.
\<close>

theorem isTokenExpired_without_expiry_counterexample:
  "tokenExpiresAt demo_service = None \<and> isTokenExpired demo_service"
  by (simp add: demo_service_def isTokenExpired_def truthy_def)

text \<open>
  C3, amended: in a state without an expiry, \<open>isTokenExpired\<close> is false unless the
  access token is absent and a refresh token is present, and true in that case.
\<close>

theorem isTokenExpired_without_expiry:
  "tokenExpiresAt s = None \<Longrightarrow>
     isTokenExpired s = (\<not> truthy (accessToken s) \<and> truthy (refreshToken s))"
  by (simp add: isTokenExpired_def)

theorem isTokenExpired_without_expiry_witness:
  "tokenExpiresAt (demo_service\<lparr>refreshToken := None\<rparr>) = None
   \<and> \<not> isTokenExpired (demo_service\<lparr>refreshToken := None\<rparr>)"
  using isTokenExpired_without_expiry [of "demo_service\<lparr>refreshToken := None\<rparr>"]
  by (simp add: demo_service_def truthy_def)

text \<open>
  C7 as stated fails: called without a refresh token, \<open>setAccessToken\<close> keeps the
  one on file, so the same arguments leave different refresh tokens in different
  states.
\<close>

theorem setAccessToken_keeps_refresh_token_counterexample:
  "refreshToken (setAccessToken (Some ''at-2'') (Some ''r'') None None demo_service) = Some ''rt-1''
   \<and> refreshToken (setAccessToken (Some ''at-2'') (Some ''r'') None None
        (demo_service\<lparr>refreshToken := None\<rparr>)) = None"
  by (simp add: setAccessToken_def demo_service_def truthy_def)

text \<open>
  C7, amended: \<open>setAccessToken\<close> accepts any token; the access token and the
  realm id are overwritten with the arguments; the refresh token is overwritten when
  one is given and kept otherwise; the expiry is kept when no lifetime is given, and
  when a non-zero lifetime is given it becomes the date now plus that lifetime, which
  is that instant while it lies within the range of dates and the invalid date
  beyond.
\<close>

theorem setAccessToken_fields:
  "accessToken (setAccessToken a r rt e s) = a
   \<and> realmId (setAccessToken a r rt e s) = r
   \<and> (truthy rt \<longrightarrow> refreshToken (setAccessToken a r rt e s) = rt)
   \<and> (\<not> truthy rt \<longrightarrow> refreshToken (setAccessToken a r rt e s) = refreshToken s)
   \<and> (\<forall>n. e = Some n \<and> n \<noteq> 0 \<and> \<bar>clock s + n * 1000\<bar> \<le> 8640000000000000 \<longrightarrow>
         tokenExpiresAt (setAccessToken a r rt e s) = Some (Date (clock s + n * 1000)))
   \<and> (\<forall>n. e = Some n \<and> n \<noteq> 0 \<and> \<bar>clock s + n * 1000\<bar> > 8640000000000000 \<longrightarrow>
         tokenExpiresAt (setAccessToken a r rt e s) = Some InvalidDate)
   \<and> (e = None \<longrightarrow> tokenExpiresAt (setAccessToken a r rt e s) = tokenExpiresAt s)"
  by (simp add: setAccessToken_def new_Date_def Let_def split: option.splits)

theorem setAccessToken_fields_witness:
  "accessToken (setAccessToken (Some ''at-2'') (Some ''r'') (Some ''rt-2'') (Some 3600) demo_service) = Some ''at-2''
   \<and> realmId (setAccessToken (Some ''at-2'') (Some ''r'') (Some ''rt-2'') (Some 3600) demo_service) = Some ''r''
   \<and> refreshToken (setAccessToken (Some ''at-2'') (Some ''r'') (Some ''rt-2'') (Some 3600) demo_service) = Some ''rt-2''
   \<and> tokenExpiresAt (setAccessToken (Some ''at-2'') (Some ''r'') (Some ''rt-2'') (Some 3600) demo_service)
       = Some (Date 4600000)
   \<and> tokenExpiresAt (setAccessToken (Some ''at-2'') (Some ''r'') (Some ''rt-2'')
                        (Some 9000000000000000) demo_service)
       = Some InvalidDate
   \<and> refreshToken (setAccessToken (Some ''at-2'') (Some ''r'') None None demo_service) = Some ''rt-1''
   \<and> tokenExpiresAt (setAccessToken (Some ''at-2'') (Some ''r'') None None demo_service) = None"
  using setAccessToken_fields [of "Some ''at-2''" "Some ''r''" "Some ''rt-2''" "Some 3600" demo_service]
        setAccessToken_fields [of "Some ''at-2''" "Some ''r''" "Some ''rt-2''"
                                  "Some 9000000000000000" demo_service]
        setAccessToken_fields [of "Some ''at-2''" "Some ''r''" None None demo_service]
  by (simp add: demo_service_def truthy_def)

section \<open>Refreshing\<close>

text \<open>
  C6 as stated fails: a refresh with an empty refresh token, on a service that has a
  refresh token and no realm id on file, answered without a refresh token and
  without a realm id, leaves the session's own refresh token in place, not the
  supplied one, and gives the empty string as realm id where none was stored.
\<close>

theorem refreshAccessToken_empty_token_no_realm_counterexample:
  "realmId unconfigured_service = None
   \<and> refreshToken unconfigured_service = Some ''rt-1''
   \<and> refreshToken (snd (refreshAccessToken rejecting_upstream [] unconfigured_service))
       = Some ''rt-1''
   \<and> realmId (snd (refreshAccessToken rejecting_upstream [] unconfigured_service)) = Some []
   \<and> fst (refreshAccessToken rejecting_upstream [] unconfigured_service)
       = Inr \<lparr>access_token = Some ''at-2'', refresh_token = Some [], expires_in = Some 3600,
              token_type = Some ''bearer'', tr_realmId = Some []\<rparr>"
  by (simp add: refreshAccessToken_def post_token_def rejecting_upstream_def
        unconfigured_service_def setAccessToken_def js_or_def truthy_def Let_def)

text \<open>
  C6, amended: when a refresh succeeds and the vendor's answer has no refresh token,
  the token result carries the refresh token that was supplied, and the session
  holds it too when it is not empty, while an empty one leaves the session's own in
  place; and when the answer has no realm id, with or without a refresh token in
  it, the session and the result get the realm id on file if there is one and the
  empty string if there is none.
\<close>

theorem refreshAccessToken_keeps_refresh_token:
  assumes "token_endpoint up (sent s) rt = TokenOk (Some td)"
  shows "\<exists>res s'. refreshAccessToken up rt s = (Inr res, s')
           \<and> (\<not> truthy (refresh_token td) \<longrightarrow>
                 refresh_token res = Some rt
                 \<and> (rt \<noteq> [] \<longrightarrow> refreshToken s' = Some rt)
                 \<and> (rt = [] \<longrightarrow> refreshToken s' = refreshToken s))
           \<and> (\<not> truthy (tr_realmId td) \<and> truthy (realmId s) \<longrightarrow>
                 tr_realmId res = realmId s \<and> realmId s' = realmId s)
           \<and> (\<not> truthy (tr_realmId td) \<and> \<not> truthy (realmId s) \<longrightarrow>
                 tr_realmId res = Some [] \<and> realmId s' = Some [])"
  using assms
  by (simp add: refreshAccessToken_def post_token_def Let_def js_or_def
        refreshToken_setAccessToken truthy_def)

theorem refreshAccessToken_keeps_refresh_token_witness:
  "token_endpoint rejecting_upstream (sent stale_service) ''rt-1''
     = TokenOk (Some \<lparr>access_token = Some ''at-2'', refresh_token = None,
                      expires_in = Some 3600, token_type = Some ''bearer'', tr_realmId = None\<rparr>)
   \<and> (\<exists>res s'. refreshAccessToken rejecting_upstream ''rt-1'' stale_service = (Inr res, s')
         \<and> refresh_token res = Some ''rt-1'' \<and> refreshToken s' = Some ''rt-1''
         \<and> tr_realmId res = Some ''4620816365'' \<and> realmId s' = Some ''4620816365'')
   \<and> token_endpoint rotating_upstream (sent unconfigured_service) ''rt-1''
     = TokenOk (Some \<lparr>access_token = Some ''at-2'', refresh_token = Some ''rt-2'',
                      expires_in = Some 3600, token_type = Some ''bearer'', tr_realmId = None\<rparr>)
   \<and> (\<exists>res s'. refreshAccessToken rotating_upstream ''rt-1'' unconfigured_service = (Inr res, s')
         \<and> tr_realmId res = Some [] \<and> realmId s' = Some [])
   \<and> (\<exists>res s'. refreshAccessToken rotating_upstream ''rt-1'' stale_service = (Inr res, s')
         \<and> tr_realmId res = Some ''4620816365'' \<and> realmId s' = Some ''4620816365'')"
  using refreshAccessToken_keeps_refresh_token
          [of rejecting_upstream stale_service "''rt-1''"
              "\<lparr>access_token = Some ''at-2'', refresh_token = None,
                expires_in = Some 3600, token_type = Some ''bearer'', tr_realmId = None\<rparr>"]
        refreshAccessToken_keeps_refresh_token
          [of rotating_upstream unconfigured_service "''rt-1''"
              "\<lparr>access_token = Some ''at-2'', refresh_token = Some ''rt-2'',
                expires_in = Some 3600, token_type = Some ''bearer'', tr_realmId = None\<rparr>"]
        refreshAccessToken_keeps_refresh_token
          [of rotating_upstream stale_service "''rt-1''"
              "\<lparr>access_token = Some ''at-2'', refresh_token = Some ''rt-2'',
                expires_in = Some 3600, token_type = Some ''bearer'', tr_realmId = None\<rparr>"]
  by (simp add: rejecting_upstream_def rotating_upstream_def stale_service_def
        unconfigured_service_def truthy_def)

text \<open>Every failed refresh, whatever the token endpoint answered, ends in the terminal error.\<close>

lemma ensureValidToken_any_refresh_failure:
  assumes "refreshToken s = Some rt" and "rt \<noteq> []" and "isTokenExpired s"
    and "fst (refreshAccessToken up rt s) = Inl e"
  shows "fst (ensureValidToken up s) = Inl reauth_required"
proof -
  have "e = refresh_failed"
    using assms(4) by (rule refreshAccessToken_failure)
  then have "exn_status e = Some 400"
    by (simp add: refresh_failed_def exn_status_def)
  with assms show ?thesis
    by (cases "refreshAccessToken up rt s") (simp add: ensureValidToken_def)
qed

text \<open>
  C4 at a token endpoint that answers HTTP 500: \<open>refreshAccessToken\<close> turns the
  failure into its status-400 exception, and \<open>ensureValidToken\<close>, reading that
  400, raises the terminal re-authentication error with status 401 instead of
  passing the failure on.
\<close>

theorem ensureValidToken_server_error_becomes_reauth:
  "isTokenExpired stale_service
   \<and> token_endpoint failing_token_endpoint (sent stale_service) ''rt-1'' = TokenFail (Some 500)
   \<and> fst (refreshAccessToken failing_token_endpoint ''rt-1'' stale_service) = Inl refresh_failed
   \<and> fst (ensureValidToken failing_token_endpoint stale_service) = Inl reauth_required
   \<and> exn_status reauth_required = Some 401
   \<and> reauth_required \<noteq> refresh_failed"
  by (simp add: stale_service_def failing_token_endpoint_def isTokenExpired_def truthy_def
        ensureValidToken_def refreshAccessToken_def post_token_def exn_status_def
        refresh_failed_def reauth_required_def)

text \<open>
  C5: without a refresh token, \<open>ensureValidToken\<close> returns without an error and
  leaves the state as it is, nothing sent, even when the token has expired; and
  \<open>makeRequest\<close> then sends the request once, with the token on file, and returns
  the response or throws what \<open>handleApiError\<close> throws for the failure.
\<close>

theorem ensureValidToken_without_refresh_token:
  assumes "\<not> truthy (refreshToken s)"
  shows "ensureValidToken up s = (Inr (), s)
    \<and> makeRequest up m url body params isRetry s =
        (let req = Request m url params (case m of GET \<Rightarrow> None | POST \<Rightarrow> body)
                     (if truthy (accessToken s) then accessToken s else None)
         in ((case api up (sent s) req of
                ApiOk r \<Rightarrow> Inr r
              | ApiErr err \<Rightarrow> Inl (handleApiError err (''API Request '' @ method_name m @ '' '' @ url))),
             await up (ApiRequest req) s))"
proof -
  have ens: "ensureValidToken up s = (Inr (), s)"
    using assms by (simp add: ensureValidToken_def truthy_def split: option.splits)
  show ?thesis
    using assms ens
    by (simp add: makeRequest.simps [of up m url body params isRetry s] axios_call_def Let_def
          split: api_outcome.splits)
qed

theorem ensureValidToken_without_refresh_token_witness:
  "\<not> truthy (refreshToken no_refresh_service) \<and> isTokenExpired no_refresh_service
   \<and> ensureValidToken rejecting_upstream no_refresh_service = (Inr (), no_refresh_service)
   \<and> sent (snd (makeRequest rejecting_upstream GET ''/v3/company/4620816365/query'' None [] False
                   no_refresh_service))
      = [ApiRequest (Request GET ''/v3/company/4620816365/query'' [] None (Some ''at-1''))]"
  using ensureValidToken_without_refresh_token
          [of no_refresh_service rejecting_upstream GET "''/v3/company/4620816365/query''" None
              "[]" False]
  by (simp add: no_refresh_service_def truthy_def isTokenExpired_def Let_def)

section \<open>The retry\<close>

text \<open>
  Every call of \<open>makeRequest\<close> sends its request at most twice, a retried call at
  most once, and all attempts are the same request up to the bearer token.
\<close>

lemma makeRequest_retry_api_log:
  assumes "makeRequest up m url b p True s = (r, w)"
  shows "\<exists>rs. api_log w = api_log s @ rs \<and> length rs \<le> 1 \<and> attempts_of m url p b rs"
proof (cases "ensureValidToken up s")
  case (Pair r0 w0)
  note ens = ensureValidToken_api_log [OF Pair]
  show ?thesis
  proof (cases r0)
    case (Inl e)
    with assms Pair ens show ?thesis
      by (simp add: makeRequest.simps [of up m url b p True s] attempts_of_def)
  next
    case (Inr u)
    obtain o1 w1 where ax: "axios_call up m url b p w0 = (o1, w1)"
      by (cases "axios_call up m url b p w0")
    from axios_call_api_log [OF ax] ens
    have log1: "api_log w1 = api_log s @ [ApiRequest (Request m url p (body_sent m b)
                  (if truthy (accessToken w0) then accessToken w0 else None))]"
      by simp
    have "w = w1"
      using assms Pair Inr ax
      by (cases o1) (simp_all add: makeRequest.simps [of up m url b p True s])
    with log1 show ?thesis
      by (auto simp: attempts_of_def)
  qed
qed

lemma makeRequest_api_log:
  assumes "makeRequest up m url b p isRetry s = (r, w)"
  shows "\<exists>rs. api_log w = api_log s @ rs \<and> length rs \<le> (if isRetry then 1 else 2)
           \<and> attempts_of m url p b rs"
proof (cases isRetry)
  case True
  with makeRequest_retry_api_log [of up m url b p s r w] assms show ?thesis
    by auto
next
  case False
  show ?thesis
  proof (cases "ensureValidToken up s")
    case (Pair r0 w0)
    note ens = ensureValidToken_api_log [OF Pair]
    show ?thesis
    proof (cases r0)
      case (Inl e)
      with assms Pair ens False show ?thesis
        by (simp add: makeRequest.simps [of up m url b p False s] attempts_of_def)
    next
      case (Inr u)
      obtain o1 w1 where ax: "axios_call up m url b p w0 = (o1, w1)"
        by (cases "axios_call up m url b p w0")
      from axios_call_api_log [OF ax] ens
      have log1: "api_log w1 = api_log s @ [ApiRequest (Request m url p (body_sent m b)
                    (if truthy (accessToken w0) then accessToken w0 else None))]"
        by simp
      show ?thesis
      proof (cases o1)
        case (ApiOk d)
        with assms Pair Inr ax False have "w = w1"
          by (simp add: makeRequest.simps [of up m url b p False s])
        with log1 False show ?thesis
          by (auto simp: attempts_of_def)
      next
        case (ApiErr err)
        show ?thesis
        proof (cases "isAuthError err \<and> truthy (refreshToken w1)")
          case no: False
          with assms Pair Inr ax False ApiErr have "w = w1"
            by (auto simp: makeRequest.simps [of up m url b p False s])
          with log1 False show ?thesis
            by (auto simp: attempts_of_def)
        next
          case yes: True
          obtain r2 w2 where rf: "refreshAccessToken up (the (refreshToken w1)) w1 = (r2, w2)"
            by (cases "refreshAccessToken up (the (refreshToken w1)) w1")
          note log2 = refreshAccessToken_api_log [OF rf]
          show ?thesis
          proof (cases r2)
            case (Inl e2)
            with assms Pair Inr ax False ApiErr yes rf have "w = w2"
              by (simp add: makeRequest.simps [of up m url b p False s])
            with log1 log2 False show ?thesis
              by (auto simp: attempts_of_def)
          next
            case t: (Inr tok)
            obtain r3 w3 where again: "makeRequest up m url b p True w2 = (r3, w3)"
              by (cases "makeRequest up m url b p True w2")
            from makeRequest_retry_api_log [OF again] obtain rs
              where rs: "api_log w3 = api_log w2 @ rs" "length rs \<le> 1" "attempts_of m url p b rs"
              by blast
            have "w = w3"
              using assms Pair Inr ax False ApiErr yes rf t again
              by (cases r3) (simp_all add: makeRequest.simps [of up m url b p False s])
            with rs log1 log2 False show ?thesis
              by (auto simp: attempts_of_def)
          qed
        qed
      qed
    qed
  qed
qed

text \<open>A retried call is never retried again: its failure is translated at once.\<close>

lemma makeRequest_retry_fails_at_once:
  assumes "ensureValidToken up s = (Inr u, w)"
    and "axios_call up m url b p w = (ApiErr err, w1)"
  shows "makeRequest up m url b p True s
           = (Inl (handleApiError err (''API Request '' @ method_name m @ '' '' @ url)), w1)"
  using assms by (simp add: makeRequest.simps [of up m url b p True s])

text \<open>
  Whenever the first attempt fails with an authentication failure, the refresh
  succeeds and the retried call fails, the exception that leaves \<open>makeRequest\<close> is
  built from the first attempt's error.
\<close>

lemma makeRequest_failed_retry_reports_first:
  assumes "ensureValidToken up s = (Inr u, w)"
    and "axios_call up m url b p w = (ApiErr err, w1)"
    and "isAuthError err" and "truthy (refreshToken w1)"
    and "refreshAccessToken up (the (refreshToken w1)) w1 = (Inr t, w2)"
    and "makeRequest up m url b p True w2 = (Inl e2, w3)"
  shows "makeRequest up m url b p False s
           = (Inl (handleApiError err ''API Request (after failed refresh)''), w3)"
  using assms by (simp add: makeRequest.simps [of up m url b p False s])

text \<open>
  C1 at an upstream that answers 401 to the first attempt and 401 to the retry, with
  different messages: the request is sent, the token refreshed, the request sent
  once more with the new token, and the exception that reaches the caller is the
  translation of the first failure, labelled as a failed refresh.
\<close>

theorem makeRequest_surfaces_first_failure:
  "fst (makeRequest rejecting_upstream GET query_url None [] False fresh_service)
     = Inl (handleApiError (unauthorized ''first failure'') ''API Request (after failed refresh)'')
   \<and> handleApiError (unauthorized ''first failure'') ''API Request (after failed refresh)''
     = HttpException
         (Object \<lparr>exn_message = ''first failure'', exn_code = Some ''3200'', exn_detail = None,
                  exn_existingItem = None, exn_hint = None,
                  exn_originalError =
                    Some (OrigData \<lparr>Fault = Some \<lparr>Error = Some [\<lparr>Detail = None, detail = None,
                                         Message = Some ''first failure'', message = None,
                                         code = Some ''3200''\<rparr>], error = None\<rparr>,
                                     fault = None\<rparr>)\<rparr>)
         401
   \<and> sent (snd (makeRequest rejecting_upstream GET query_url None [] False fresh_service))
     = [ApiRequest (Request GET query_url [] None (Some ''at-1'')),
        TokenRefresh ''rt-1'',
        ApiRequest (Request GET query_url [] None (Some ''at-2''))]
   \<and> api rejecting_upstream
         [ApiRequest (Request GET query_url [] None (Some ''at-1'')), TokenRefresh ''rt-1'']
         (Request GET query_url [] None (Some ''at-2''))
     = ApiErr (unauthorized ''second failure'')"
  by (simp add: makeRequest.simps [of _ _ _ _ _ False] makeRequest.simps [of _ _ _ _ _ True]
        fresh_service_def rejecting_upstream_def unauthorized_def query_url_def
        ensureValidToken_def isTokenExpired_def truthy_def axios_call_def await_def
        refreshAccessToken_def post_token_def setAccessToken_def js_or_def Let_def
        isAuthError_def num_or_def truthy_num_def response_status_def response_body_def
        handleApiError_def translated_fault_def new_Date_def first_detail_def field_def
        obj_or_def or_default_def num_or_default_def)

section \<open>Paginated queries\<close>

text \<open>
  C8: when the query for the rows succeeds and the count query fails,
  \<open>executeQuery\<close> raises nothing and returns the rows with their number as the
  total.
\<close>

theorem executeQuery_count_failure:
  assumes "makeRequest up GET (company_url s ''/query'') None
             [(''query'', formatQuery up entity maxRes startPos wh)] False s = (Inr (Some d), w)"
    and "QueryResponse d = Some qr"
    and "makeRequest up GET (company_url w ''/query'') None
             [(''query'', formatCountQuery entity wh)] False w = (Inl e, w1)"
  shows "executeQuery up entity maxRes startPos wh s
           = (Inr \<lparr>totalCount = int (length (rows_of qr entity)), startPosition = startPos,
                    maxResults = maxRes, items = rows_of qr entity\<rparr>, w1)"
  using assms by (simp add: executeQuery_def rows_of_def Let_def)

theorem executeQuery_count_failure_witness:
  "fst (executeQuery (scripted_upstream (ApiOk (Some sample_page)) (ApiErr server_error))
          ''Customer'' 20 1 None fresh_service)
     = Inr \<lparr>totalCount = 2, startPosition = 1, maxResults = 20, items = [alice, alice]\<rparr>"
proof -
  let ?up = "scripted_upstream (ApiOk (Some sample_page)) (ApiErr server_error)"
  let ?first = "makeRequest ?up GET (company_url fresh_service ''/query'') None
                  [(''query'', formatQuery ?up ''Customer'' 20 1 None)] False fresh_service"
  let ?second = "makeRequest ?up GET (company_url (snd ?first) ''/query'') None
                  [(''query'', formatCountQuery ''Customer'' None)] False (snd ?first)"
  have 1: "?first = (Inr (Some sample_page), snd ?first)"
    by (simp add: makeRequest.simps [of _ _ _ _ _ False] run_defs)
  have 2: "QueryResponse sample_page
             = Some \<lparr>qr_rows = [''Customer'' \<mapsto> [alice, alice], ''Item'' \<mapsto> [widget]],
                     qr_totalCount = None\<rparr>"
    by (simp add: sample_page_def)
  have 3: "?second = (Inl (handleApiError server_error (''API Request GET '' @ query_url)),
                      snd ?second)"
    by (simp add: makeRequest.simps [of _ _ _ _ _ False] run_defs)
  from executeQuery_count_failure [OF 1 2 3] show ?thesis
    by (simp add: rows_of_def)
qed

lemma with_alias_page:
  "executeQuery up entity maxRes startPos wh s = (Inr page, w) \<Longrightarrow>
     with_alias (executeQuery up entity maxRes startPos wh s) = (Inr (page, items page), w)"
  by (simp add: with_alias_def)

lemma executeQuery_items:
  assumes "makeRequest up GET (company_url s ''/query'') None
             [(''query'', formatQuery up entity maxRes startPos wh)] False s = (Inr (Some d), w)"
    and "QueryResponse d = Some qr"
  shows "\<exists>page w1. executeQuery up entity maxRes startPos wh s = (Inr page, w1)
           \<and> items page = rows_of qr entity"
  using assms
  by (cases "makeRequest up GET (company_url w ''/query'') None
               [(''query'', formatCountQuery entity wh)] False w")
     (auto simp: executeQuery_def rows_of_def Let_def split: sum.splits)

lemma id_query_rows_items:
  assumes "id_query_rows up entity v s = Some rs"
  shows "\<exists>page w1. executeQuery up entity 1 1 (Some (id_clause v)) s = (Inr page, w1)
           \<and> items page = rs"
proof -
  from assms obtain d w qr where
      "makeRequest up GET (company_url s ''/query'') None
         [(''query'', formatQuery up entity 1 1 (Some (id_clause v)))] False s = (Inr (Some d), w)"
      "QueryResponse d = Some qr" "rs = rows_of qr entity"
    by (auto simp: id_query_rows_def split: prod.splits sum.splits option.splits)
  with executeQuery_items [of up s entity 1 1 "Some (id_clause v)" d w qr] show ?thesis
    by simp
qed

text \<open>
  C9: when the upstream answers a query by id with no rows, the operation raises the
  404 exception with the not-found message, which no translated upstream fault
  equals; when it answers with rows, the operation returns the first.
\<close>

theorem get_by_id_not_found:
  "(id_query_rows up ''Customer'' v s = Some [] \<longrightarrow>
      fst (getCustomerById up v s)
        = Inl (HttpException (Text (''Customer with ID '' @ v @ '' not found'')) 404))
   \<and> (id_query_rows up ''Customer'' v s = Some (x # xs) \<longrightarrow> fst (getCustomerById up v s) = Inr x)
   \<and> (id_query_rows up ''Invoice'' v s = Some [] \<longrightarrow>
      fst (getInvoiceById up v s)
        = Inl (HttpException (Text (''Invoice with ID '' @ v @ '' not found'')) 404))
   \<and> (id_query_rows up ''Invoice'' v s = Some (x # xs) \<longrightarrow> fst (getInvoiceById up v s) = Inr x)
   \<and> (id_query_rows up ''Item'' v s = Some [] \<longrightarrow>
      fst (getItemById up v s)
        = Inl (HttpException (Text (''Item with ID '' @ v @ '' not found'')) 404))
   \<and> (id_query_rows up ''Item'' v s = Some (x # xs) \<longrightarrow> fst (getItemById up v s) = Inr x)
   \<and> (\<forall>err ctx m. HttpException (Text m) 404 \<noteq> handleApiError err ctx)"
proof -
  have key: "fst (first_or_not_found label v (executeQuery up entity 1 1 (Some (id_clause v)) s))
               = (case rs of
                    [] \<Rightarrow> Inl (HttpException (Text (label @ '' with ID '' @ v @ '' not found'')) 404)
                  | y # ys \<Rightarrow> Inr y)"
    if "id_query_rows up entity v s = Some rs" for entity label rs
  proof -
    from id_query_rows_items [OF that] obtain page w1 where
        "executeQuery up entity 1 1 (Some (id_clause v)) s = (Inr page, w1)" "items page = rs"
      by blast
    then show ?thesis
      by (simp add: first_or_not_found_def split: list.splits)
  qed
  have distinct: "\<forall>err ctx m. HttpException (Text m) 404 \<noteq> handleApiError err ctx"
    by (simp add: handleApiError_def translated_fault_def Let_def split: option.splits)
  from key [of "''Customer''" _ "''Customer''"] key [of "''Invoice''" _ "''Invoice''"]
       key [of "''Item''" _ "''Item''"] distinct
  show ?thesis
    by (simp add: getCustomerById_def getInvoiceById_def getItemById_def)
qed

theorem get_by_id_not_found_witness:
  "id_query_rows (scripted_upstream (ApiOk (Some sample_page)) (ApiErr server_error))
     ''Invoice'' ''42'' fresh_service = Some []
   \<and> fst (getInvoiceById (scripted_upstream (ApiOk (Some sample_page)) (ApiErr server_error))
            ''42'' fresh_service)
     = Inl (HttpException (Text ''Invoice with ID 42 not found'') 404)
   \<and> id_query_rows (scripted_upstream (ApiOk (Some sample_page)) (ApiErr server_error))
       ''Item'' ''7'' fresh_service = Some [widget]
   \<and> fst (getItemById (scripted_upstream (ApiOk (Some sample_page)) (ApiErr server_error))
            ''7'' fresh_service) = Inr widget"
proof -
  let ?up = "scripted_upstream (ApiOk (Some sample_page)) (ApiErr server_error)"
  have 1: "id_query_rows ?up ''Invoice'' ''42'' fresh_service = Some []"
    by (simp add: id_query_rows_def makeRequest.simps [of _ _ _ _ _ False] run_defs rows_of_def)
  have 2: "id_query_rows ?up ''Item'' ''7'' fresh_service = Some [widget]"
    by (simp add: id_query_rows_def makeRequest.simps [of _ _ _ _ _ False] run_defs rows_of_def)
  from 1 2 get_by_id_not_found [of ?up "''42''" fresh_service]
       get_by_id_not_found [of ?up "''7''" fresh_service widget "[]"]
  show ?thesis by simp
qed

section \<open>Creating an item\<close>

text \<open>Requests with method GET add no writing request to what was sent.\<close>

lemma is_create_api_log: "filter is_create (api_log s) = filter is_create (sent s)"
proof -
  have "is_create e \<Longrightarrow> is_api_request e" for e
    by (cases e) simp_all
  then have "filter is_create (filter is_api_request xs) = filter is_create xs" for xs
    by (induction xs) auto
  then show ?thesis
    by (simp add: api_log_def)
qed

lemma attempts_of_GET_no_create: "attempts_of GET url p b rs \<Longrightarrow> filter is_create rs = []"
  by (induction rs) (auto simp: attempts_of_def)

lemma makeRequest_GET_no_create:
  assumes "makeRequest up GET url b p r s = (res, w)"
  shows "filter is_create (sent w) = filter is_create (sent s)"
proof -
  from makeRequest_api_log [OF assms] obtain rs
    where rs: "api_log w = api_log s @ rs" "attempts_of GET url p b rs"
    by blast
  have "filter is_create (sent w) = filter is_create (api_log s @ rs)"
    using rs(1) is_create_api_log [of w] by simp
  also have "\<dots> = filter is_create (sent s)"
    using attempts_of_GET_no_create [OF rs(2)] is_create_api_log [of s] by simp
  finally show ?thesis .
qed

lemma executeQuery_no_create:
  assumes "executeQuery up entity maxRes startPos wh s = (res, w)"
  shows "filter is_create (sent w) = filter is_create (sent s)"
proof (cases "makeRequest up GET (company_url s ''/query'') None
                [(''query'', formatQuery up entity maxRes startPos wh)] False s")
  case (Pair r1 w1)
  note first = makeRequest_GET_no_create [OF Pair]
  show ?thesis
  proof (cases "\<exists>d qr. r1 = Inr (Some d) \<and> QueryResponse d = Some qr")
    case False
    with assms Pair have "w = w1"
      by (auto simp: executeQuery_def split: sum.splits option.splits)
    with first show ?thesis by simp
  next
    case True
    then obtain d qr where d: "r1 = Inr (Some d)" "QueryResponse d = Some qr"
      by blast
    obtain r2 w2 where second:
        "makeRequest up GET (company_url w1 ''/query'') None
           [(''query'', formatCountQuery entity wh)] False w1 = (r2, w2)"
      by (cases "makeRequest up GET (company_url w1 ''/query'') None
                   [(''query'', formatCountQuery entity wh)] False w1")
    from assms Pair d second have "w = w2"
      by (cases r2) (simp_all add: executeQuery_def Let_def)
    with first makeRequest_GET_no_create [OF second] show ?thesis
      by simp
  qed
qed

lemma findItemByName_no_create:
  assumes "findItemByName up itemName s = (res, w)"
  shows "filter is_create (sent w) = filter is_create (sent s)"
proof (cases "executeQuery up ''Item'' 1 1 (Some (name_clause itemName)) s")
  case (Pair r1 w1)
  with assms have "w = w1"
    by (auto simp: findItemByName_def split: sum.splits list.splits)
  with executeQuery_no_create [OF Pair] show ?thesis
    by simp
qed

text \<open>
  C10: when the lookup by name finds an item, \<open>createItem\<close> raises the 409
  exception with code \<open>DUPLICATE_ITEM_NAME\<close> and the found item's id, name and
  type, and no writing request has gone upstream.
\<close>

theorem createItem_duplicate:
  assumes "findItemByName up (Name itemData) s = (Inr (Some existing), w)"
  shows "createItem up itemData s = (Inl (duplicate_item (Name itemData) existing), w)
    \<and> (\<exists>body. duplicate_item (Name itemData) existing = HttpException (Object body) 409
          \<and> exn_code body = Some ''DUPLICATE_ITEM_NAME''
          \<and> exn_existingItem body
              = Some \<lparr>ex_Id = row_Id existing, ex_Name = row_Name existing,
                      ex_Type = row_Type existing\<rparr>)
    \<and> filter is_create (sent w) = filter is_create (sent s)"
  using assms findItemByName_no_create [OF assms]
  by (simp add: createItem_def duplicate_item_def)

theorem createItem_duplicate_witness:
  "fst (createItem (scripted_upstream (ApiOk (Some sample_page)) (ApiErr server_error))
          widget_data fresh_service)
     = Inl (duplicate_item ''Widget'' widget)
   \<and> filter is_create
        (sent (snd (createItem (scripted_upstream (ApiOk (Some sample_page)) (ApiErr server_error))
                      widget_data fresh_service))) = []"
proof -
  let ?up = "scripted_upstream (ApiOk (Some sample_page)) (ApiErr server_error)"
  let ?found = "findItemByName ?up (Name widget_data) fresh_service"
  have "?found = (Inr (Some widget), snd ?found)"
    by (simp add: findItemByName_def executeQuery_def widget_data_def
          makeRequest.simps [of _ _ _ _ _ False] run_defs)
  from createItem_duplicate [OF this] show ?thesis
    by (simp add: widget_data_def fresh_service_def)
qed

end
